theory Spec2Isabelle
  imports Complex_Main
begin

section \<open>Data model of \<^verbatim>\<open>TopHolders\<close> (src/main.py)\<close>

text \<open>
  An address is the string web3 returns for \<^verbatim>\<open>entry['args']['user']\<close>. A decoded
  \<^verbatim>\<open>Deposit\<close> event is the pair of its \<^verbatim>\<open>user\<close> and \<^verbatim>\<open>amount\<close> arguments; Python
  integers are unbounded, so amounts and block numbers are \<^typ>\<open>int\<close>.
\<close>

type_synonym address = string
type_synonym entry = "address \<times> int"

text \<open>
  The log query \<^verbatim>\<open>createFilter(fromBlock, toBlock, pid).get_all_entries()\<close> is the
  only operation of the scan loop that depends on the node. It is a parameter of the model:
  given the number of requests issued before, \<^verbatim>\<open>fromBlock\<close> and \<^verbatim>\<open>toBlock\<close>, it
  either raises an \<^verbatim>\<open>Exception\<close> (\<open>None\<close>) or returns the decoded entries. The request
  counter lets a provider fail transiently (the same interval failing now and succeeding
  later). \<^verbatim>\<open>get_all_entries()\<close> is evaluated before the \<^verbatim>\<open>for\<close> loop over its result
  starts, so a failing request inserts nothing. The calls outside the \<^verbatim>\<open>try\<close>
  (\<^verbatim>\<open>createFilter\<close> of line 160 and the contract calls of the later steps) are taken to
  return.
\<close>

type_synonym provider = "nat \<Rightarrow> int \<Rightarrow> int \<Rightarrow> entry list option"

text \<open>The \<^verbatim>\<open>lp\<close> object of a \<^verbatim>\<open>contracts_info.json\<close> entry.\<close>

record lp_info =
  lp_address :: address
  ref_token :: int
  norm_factor :: real

text \<open>
  One entry of \<^verbatim>\<open>contracts_info.json\<close>. The keys read with \<^verbatim>\<open>.get\<close> or tested with
  \<^verbatim>\<open>in\<close> are optional; the others are taken as present.
\<close>

record contract_info =
  ci_name :: string
  ci_enabled :: bool
  ci_address :: address
  ci_pid :: int
  ci_chunk_size :: "int option"
  ci_n_blocks :: "int option"
  ci_min_amount :: "int option"
  ci_end_block :: "int option"
  ci_lp :: lp_info

definition CHUNK_SIZE :: int where
  "CHUNK_SIZE = 4999"

definition N_BLOCKS :: int where
  "N_BLOCKS = CHUNK_SIZE"

text \<open>
  \<^verbatim>\<open>contract_info.get(key) or default\<close>: the default replaces a missing key and also a
  falsy value, which for an integer is \<open>0\<close>.
\<close>

definition get_or :: "int option \<Rightarrow> int \<Rightarrow> int" where
  "get_or v d = (case v of None \<Rightarrow> d | Some x \<Rightarrow> if x = 0 then d else x)"

definition chunk_size :: "contract_info \<Rightarrow> int" where
  "chunk_size ci = get_or (ci_chunk_size ci) CHUNK_SIZE"

definition n_blocks :: "contract_info \<Rightarrow> int" where
  "n_blocks ci = get_or (ci_n_blocks ci) N_BLOCKS"

definition min_amount :: "contract_info \<Rightarrow> int" where
  "min_amount ci = get_or (ci_min_amount ci) 0"

text \<open>\<^verbatim>\<open>end_block\<close>: the configured block, else the node's \<^verbatim>\<open>blockNumber\<close>.\<close>

definition end_block :: "contract_info \<Rightarrow> int \<Rightarrow> int" where
  "end_block ci blockNumber = (case ci_end_block ci of None \<Rightarrow> blockNumber | Some b \<Rightarrow> b)"

section \<open>The chunked log scan (\<^verbatim>\<open>main\<close>, lines 140 to 191)\<close>

text \<open>
  \<^verbatim>\<open>all_deposits\<close> is a Python \<^verbatim>\<open>dict\<close>; it keeps insertion order, which the later
  \<^verbatim>\<open>list(_deposits.keys())\<close> exposes, so it is an association list with new keys
  appended at the end. Lines 164 to 166: an entry is stored only when its user is not a key yet.
\<close>

fun add_entries :: "entry list \<Rightarrow> entry list \<Rightarrow> entry list" where
  "add_entries d [] = d"
| "add_entries d ((user, amount) # es) =
     add_entries (if user \<in> fst ` set d then d else d @ [(user, amount)]) es"

text \<open>
  The local variables of the \<^verbatim>\<open>while True\<close> loop. \<open>requests\<close> is not a variable of the
  program: it logs the \<^verbatim>\<open>(fromBlock, toBlock)\<close> of every filter the loop has created, oldest
  first, so that statements about the requests issued can be made.
\<close>

record scan_state =
  to_block :: int
  from_block :: int
  cur_chunk_size :: int
  all_deposits :: "entry list"
  requests :: "(int \<times> int) list"

datatype loop_ctl = Continue scan_state | Break scan_state

text \<open>
  One pass through the loop body (lines 157 to 188). The \<^verbatim>\<open>except\<close> branch halves the
  local \<^verbatim>\<open>chunk_size\<close> (\<^verbatim>\<open>//\<close> is floor division), moves \<^verbatim>\<open>from_block\<close> and continues.
  Otherwise lines 183 to 185 run in the order of the source: \<^verbatim>\<open>to_block\<close>, then
  \<^verbatim>\<open>from_block\<close> from the old \<^verbatim>\<open>from_block\<close> and the current \<^verbatim>\<open>chunk_size\<close>, then the reset
  of \<^verbatim>\<open>chunk_size\<close>; the test of line 187 follows.
\<close>

definition scan_iter :: "provider \<Rightarrow> int \<Rightarrow> int \<Rightarrow> scan_state \<Rightarrow> loop_ctl" where
  "scan_iter get_all_entries base first_block st =
     (let st1 = st\<lparr>requests := requests st @ [(from_block st, to_block st)]\<rparr> in
      case get_all_entries (length (requests st)) (from_block st) (to_block st) of
        None \<Rightarrow>
          (let st2 = st1\<lparr>cur_chunk_size := max (cur_chunk_size st1 div 2) 1\<rparr>;
               st3 = st2\<lparr>from_block := to_block st2 - cur_chunk_size st2\<rparr>
           in Continue st3)
      | Some entries \<Rightarrow>
          (let st2 = st1\<lparr>all_deposits := add_entries (all_deposits st1) entries\<rparr>;
               st3 = st2\<lparr>to_block := from_block st2 - 1\<rparr>;
               st4 = st3\<lparr>from_block := max first_block (from_block st3 - cur_chunk_size st3)\<rparr>;
               st5 = st4\<lparr>cur_chunk_size := base\<rparr>
           in if from_block st5 \<le> first_block then Break st5 else Continue st5))"

text \<open>
  The loop has no bound on its iterations, so it is a partial function: \<open>None\<close> means that
  it never leaves the \<^verbatim>\<open>while True\<close>.
\<close>

partial_function (option) scan_loop ::
  "provider \<Rightarrow> int \<Rightarrow> int \<Rightarrow> scan_state \<Rightarrow> scan_state option" where
  "scan_loop get_all_entries base first_block st =
     (case scan_iter get_all_entries base first_block st of
        Continue st' \<Rightarrow> scan_loop get_all_entries base first_block st'
      | Break st' \<Rightarrow> Some st')"

datatype error = AssertionError | IndexError | ZeroDivisionError

text \<open>
  Lines 140 to 191 for one contract: the initial bounds, the assertion of line 145, then the
  loop. The result is \<open>None\<close> when the loop does not return, \<open>Some (Inl e)\<close> when an
  exception leaves \<^verbatim>\<open>main\<close>, and \<open>Some (Inr st)\<close> with the final variables otherwise.
\<close>

definition init_state :: "contract_info \<Rightarrow> int \<Rightarrow> scan_state" where
  "init_state ci blockNumber =
     \<lparr>to_block = end_block ci blockNumber,
      from_block = end_block ci blockNumber - chunk_size ci,
      cur_chunk_size = chunk_size ci,
      all_deposits = [],
      requests = []\<rparr>"

definition first_block_of :: "contract_info \<Rightarrow> int \<Rightarrow> int" where
  "first_block_of ci blockNumber = end_block ci blockNumber - n_blocks ci"

definition scan :: "contract_info \<Rightarrow> int \<Rightarrow> provider \<Rightarrow> (error + scan_state) option" where
  "scan ci blockNumber get_all_entries =
     (if \<not> n_blocks ci \<ge> chunk_size ci then Some (Inl AssertionError)
      else map_option Inr
        (scan_loop get_all_entries (chunk_size ci) (first_block_of ci blockNumber)
           (init_state ci blockNumber)))"

declare scan_loop.simps [code]

text \<open>The state a pass through the loop body leaves behind, whichever way it exits.\<close>

fun ctl_state :: "loop_ctl \<Rightarrow> scan_state" where
  "ctl_state (Continue st) = st"
| "ctl_state (Break st) = st"

section \<open>Number formatting (\<^verbatim>\<open>millify\<close>, lines 71 to 78)\<close>

text \<open>
  \<^verbatim>\<open>millify\<close> computes with Python floats. The model computes with the real numbers those
  floats stand for: \<^verbatim>\<open>float(n)\<close>, \<^verbatim>\<open>math.log10\<close> and \<^verbatim>\<open>/\<close> are exact here, so
  rounding errors of binary64 and the \<^verbatim>\<open>OverflowError\<close> of \<^verbatim>\<open>float\<close> on integers beyond
  its range are outside the model.
\<close>

definition millnames :: "string list" where
  "millnames = ['''', '' K'', '' M'', '' B'', '' T'']"

definition millidx :: "real \<Rightarrow> nat" where
  "millidx n =
     nat (max 0 (min (int (length millnames) - 1)
                     \<lfloor>if n = 0 then 0 else log 10 \<bar>n\<bar> / 3\<rfloor>))"

text \<open>Decimal digits of a natural number, as \<^verbatim>\<open>str\<close> prints them.\<close>

definition digit_char :: "nat \<Rightarrow> char" where
  "digit_char d = ''0123456789'' ! d"

fun str_nat :: "nat \<Rightarrow> string" where
  "str_nat n = (if n < 10 then [digit_char n] else str_nat (n div 10) @ [digit_char (n mod 10)])"

text \<open>
  \<^verbatim>\<open>'{:.0f}'.format(x)\<close>: the nearest integer, a tie going to the even neighbour, with a
  minus sign for a negative \<open>x\<close>.
\<close>

definition round_half_even :: "real \<Rightarrow> int" where
  "round_half_even x =
     (let f = \<lfloor>x\<rfloor>; d = x - of_int f
      in if d < 1 / 2 then f else if 1 / 2 < d then f + 1 else if even f then f else f + 1)"

definition format_0f :: "real \<Rightarrow> string" where
  "format_0f x =
     (if x < 0 then ''-'' @ str_nat (nat (round_half_even (- x)))
      else str_nat (nat (round_half_even x)))"

definition millify :: "real \<Rightarrow> string" where
  "millify n = format_0f (n / 10 ^ (3 * millidx n)) @ millnames ! millidx n"

section \<open>State enrichment (lines 96 to 119)\<close>

text \<open>
  What the node answers to the calls \<^verbatim>\<open>main\<close> makes for one contract: the current block
  number, the log query, \<^verbatim>\<open>poolInfo(pid)\<close> (its first component), the LP contract's
  \<^verbatim>\<open>balanceOf\<close> of the scanned contract, \<^verbatim>\<open>totalSupply()\<close> and \<^verbatim>\<open>getReserves()\<close>,
  \<^verbatim>\<open>userInfo(pid, addr)\<close>, and whether \<^verbatim>\<open>getCode(addr)\<close> is non-empty.
\<close>

record chain =
  blockNumber :: int
  get_all_entries :: provider
  poolInfo :: address
  balanceOf :: int
  totalSupply :: int
  getReserves :: "int list"
  userInfo :: "address \<Rightarrow> int \<times> int"
  is_contract :: "address \<Rightarrow> bool"

text \<open>
  \<^verbatim>\<open>xs[i]\<close> on a Python list: an index below zero counts from the end, and an index
  outside the list raises \<^verbatim>\<open>IndexError\<close>.
\<close>

definition py_getitem :: "'a list \<Rightarrow> int \<Rightarrow> error + 'a" where
  "py_getitem xs i =
     (if 0 \<le> i \<and> i < int (length xs) then Inr (xs ! nat i)
      else if i < 0 \<and> - int (length xs) \<le> i then Inr (xs ! nat (int (length xs) + i))
      else Inl IndexError)"

definition get_lp_ref_reserve :: "contract_info \<Rightarrow> int list \<Rightarrow> error + int" where
  "get_lp_ref_reserve ci lp_reserves =
     (if \<not> ref_token (ci_lp ci) < 2 then Inl AssertionError
      else if \<not> length lp_reserves = 3 then Inl AssertionError
      else py_getitem lp_reserves (ref_token (ci_lp ci)))"

text \<open>
  \<^verbatim>\<open>get_master_chef_balance\<close>. The two divisions of line 118 raise
  \<^verbatim>\<open>ZeroDivisionError\<close> on a zero divisor; the arithmetic is on reals, as in \<open>millify\<close>.
\<close>

definition get_master_chef_balance :: "contract_info \<Rightarrow> chain \<Rightarrow> error + real \<times> int" where
  "get_master_chef_balance ci ch =
     (if \<not> poolInfo ch = lp_address (ci_lp ci) then Inl AssertionError
      else let master_chef_lp = balanceOf ch; total_supply_lp = totalSupply ch in
        case get_lp_ref_reserve ci (getReserves ch) of
          Inl e \<Rightarrow> Inl e
        | Inr lp_ref_reserve \<Rightarrow>
            if total_supply_lp = 0 \<or> norm_factor (ci_lp ci) = 0 then Inl ZeroDivisionError
            else Inr (2 * of_int lp_ref_reserve
                        * (of_int master_chef_lp / of_int total_supply_lp)
                        / norm_factor (ci_lp ci),
                      master_chef_lp))"

section \<open>Aggregation and ranking (lines 198 to 214)\<close>

type_synonym row = "address \<times> real \<times> string \<times> bool"

text \<open>
  The \<^verbatim>\<open>for addr in ...\<close> loop of lines 200 to 208, with \<^verbatim>\<open>users_info\<close> as accumulator.
\<close>

fun users_info_loop :: "chain \<Rightarrow> real \<Rightarrow> int \<Rightarrow> address list \<Rightarrow> row list \<Rightarrow> error + row list" where
  "users_info_loop ch master_chef_balance_usd master_chef_lp [] users_info = Inr users_info"
| "users_info_loop ch master_chef_balance_usd master_chef_lp (addr # addrs) users_info =
     (case userInfo ch addr of (amount, reward_debt) \<Rightarrow>
        if amount = 0 then
          users_info_loop ch master_chef_balance_usd master_chef_lp addrs users_info
        else if master_chef_lp = 0 then Inl ZeroDivisionError
        else users_info_loop ch master_chef_balance_usd master_chef_lp addrs
               (users_info @
                  [(addr,
                    100 * of_int amount / of_int master_chef_lp,
                    millify (master_chef_balance_usd * of_int amount / of_int master_chef_lp),
                    is_contract ch addr)]))"

text \<open>
  \<^verbatim>\<open>sorted(users_info, key=lambda x: x[1], reverse=True)\<close>. Python keeps a reversed sort
  stable by reversing the list, sorting it in ascending order and reversing the result.
\<close>

definition sorted_reverse :: "row list \<Rightarrow> row list" where
  "sorted_reverse users_info = rev (sort_key (\<lambda>x. fst (snd x)) (rev users_info))"

datatype report = Skipped | Written "row list"

text \<open>
  The body of the \<^verbatim>\<open>for\<close> loop of \<^verbatim>\<open>main\<close> for one entry of the configuration: a disabled
  contract is skipped; otherwise the scan, the enrichment and the ranking run, and the rows
  handed to \<^verbatim>\<open>csv_writer\<close> are the result. An exception at any step leaves \<^verbatim>\<open>main\<close>.
\<close>

definition process_contract :: "contract_info \<Rightarrow> chain \<Rightarrow> (error + report) option" where
  "process_contract ci ch =
     (if \<not> ci_enabled ci then Some (Inr Skipped)
      else case scan ci (blockNumber ch) (get_all_entries ch) of
        None \<Rightarrow> None
      | Some (Inl e) \<Rightarrow> Some (Inl e)
      | Some (Inr st) \<Rightarrow>
          Some (case get_master_chef_balance ci ch of
                  Inl e \<Rightarrow> Inl e
                | Inr (master_chef_balance_usd, master_chef_lp) \<Rightarrow>
                    (case users_info_loop ch master_chef_balance_usd master_chef_lp
                            (map fst (all_deposits st)) [] of
                       Inl e \<Rightarrow> Inl e
                     | Inr users_info \<Rightarrow> Inr (Written (sorted_reverse users_info)))))"

section \<open>Providers and configurations used as concrete inputs\<close>

text \<open>A provider that fails exactly the requests wider than \<open>W\<close> and finds no event.\<close>

definition threshold_provider :: "int \<Rightarrow> provider" where
  "threshold_provider W = (\<lambda>i f t. if W < t - f then None else Some [])"

text \<open>
  A provider over a fixed list of events, each with the block it was emitted in: a request
  never fails and returns the events of the blocks \<open>f\<close> to \<open>t\<close>, both included.
\<close>

definition log_provider :: "(int \<times> entry) list \<Rightarrow> provider" where
  "log_provider events = (\<lambda>i f t. Some (map snd (filter (\<lambda>(b, e). f \<le> b \<and> b \<le> t) events)))"

text \<open>A provider whose first \<open>k\<close> requests fail and whose later requests return \<open>es\<close>.\<close>

definition flaky_provider :: "nat \<Rightarrow> entry list \<Rightarrow> provider" where
  "flaky_provider k es = (\<lambda>i f t. if i < k then None else Some es)"

definition example_lp :: lp_info where
  "example_lp = \<lparr>lp_address = ''0xLP'', ref_token = 0, norm_factor = 1\<rparr>"

definition example_ci :: "int option \<Rightarrow> int option \<Rightarrow> int \<Rightarrow> contract_info" where
  "example_ci n c e =
     \<lparr>ci_name = ''pool'', ci_enabled = True, ci_address = ''0xMC'', ci_pid = 0,
      ci_chunk_size = c, ci_n_blocks = n, ci_min_amount = None, ci_end_block = Some e,
      ci_lp = example_lp\<rparr>"

text \<open>
  A small chain: user A deposits in block 95 and again, with another amount, in block 86;
  B and C deposit in blocks 86 and 85. A has withdrawn everything since, B and C hold 50
  and 100 of the 200 pool tokens staked, and C is a contract.
\<close>

definition example_events :: "(int \<times> entry) list" where
  "example_events = [(95, (''0xA'', 7)), (86, (''0xA'', 9)), (86, (''0xB'', 1)), (85, (''0xC'', 4))]"

definition example_chain :: chain where
  "example_chain =
     \<lparr>blockNumber = 100,
      get_all_entries = log_provider example_events,
      poolInfo = ''0xLP'',
      balanceOf = 200,
      totalSupply = 400,
      getReserves = [5000, 7000, 1700000000],
      userInfo = (\<lambda>a. if a = ''0xB'' then (50, 0) else if a = ''0xC'' then (100, 3) else (0, 0)),
      is_contract = (\<lambda>a. a = ''0xC'')\<rparr>"

section \<open>Facts about one pass through the loop body\<close>

lemma scan_iter_None:
  "p (length (requests st)) (from_block st) (to_block st) = None \<Longrightarrow>
   scan_iter p base fb st =
     Continue (st\<lparr>requests := requests st @ [(from_block st, to_block st)],
                 cur_chunk_size := max (cur_chunk_size st div 2) 1,
                 from_block := to_block st - max (cur_chunk_size st div 2) 1\<rparr>)"
  by (simp add: scan_iter_def Let_def)

lemma scan_iter_Some:
  "p (length (requests st)) (from_block st) (to_block st) = Some es \<Longrightarrow>
   scan_iter p base fb st =
     (if from_block st - cur_chunk_size st \<le> fb
      then Break (st\<lparr>requests := requests st @ [(from_block st, to_block st)],
                 all_deposits := add_entries (all_deposits st) es,
                 to_block := from_block st - 1,
                 from_block := max fb (from_block st - cur_chunk_size st),
                 cur_chunk_size := base\<rparr>)
      else Continue (st\<lparr>requests := requests st @ [(from_block st, to_block st)],
                 all_deposits := add_entries (all_deposits st) es,
                 to_block := from_block st - 1,
                 from_block := max fb (from_block st - cur_chunk_size st),
                 cur_chunk_size := base\<rparr>))"
  by (simp add: scan_iter_def Let_def)

lemma scan_iter_requests:
  "requests (ctl_state (scan_iter p base fb st)) = requests st @ [(from_block st, to_block st)]"
  by (cases "p (length (requests st)) (from_block st) (to_block st)")
     (simp_all add: scan_iter_None scan_iter_Some)

text \<open>The record after a chunk: the bindings it had, then the first binding of each new user.\<close>

lemma map_of_add_entries: "map_of (add_entries d es) = map_of es ++ map_of d"
proof (induction es arbitrary: d)
  case Nil
  show ?case by simp
next
  case (Cons e es)
  obtain u a where e: "e = (u, a)" by (cases e)
  show ?case
  proof (cases "u \<in> fst ` set d")
    case True
    then obtain v where "map_of d u = Some v"
      by (metis domD dom_map_of_conv_image_fst)
    then have "map_of es ++ map_of d = map_of (e # es) ++ map_of d"
      by (auto simp: e map_add_def fun_eq_iff split: option.splits)
    moreover have "add_entries d (e # es) = add_entries d es"
      using True by (simp add: e)
    ultimately show ?thesis by (simp only: Cons.IH)
  next
    case False
    then have "map_of d u = None"
      by (simp add: map_of_eq_None_iff)
    then have "map_of es ++ map_of (d @ [(u, a)]) = map_of (e # es) ++ map_of d"
      by (auto simp: e map_add_def fun_eq_iff split: option.splits)
    moreover have "add_entries d (e # es) = add_entries (d @ [(u, a)]) es"
      using False by (simp add: e)
    ultimately show ?thesis by (simp only: Cons.IH)
  qed
qed

lemma add_entries_keeps:
  "map_of d a = Some v \<Longrightarrow> map_of (add_entries d es) a = Some v"
  by (simp add: map_of_add_entries map_add_def)

lemma scan_iter_keeps:
  "map_of (all_deposits st) a = Some v \<Longrightarrow>
   map_of (all_deposits (ctl_state (scan_iter p base fb st))) a = Some v"
  by (cases "p (length (requests st)) (from_block st) (to_block st)")
     (simp_all add: scan_iter_None scan_iter_Some add_entries_keeps)

section \<open>Facts about the whole loop\<close>

text \<open>
  Whatever the loop returns, it has been reached through passes of the body, so a property
  every pass preserves holds of the result: induction over the unfolding of the loop.
\<close>

lemma scan_loop_keeps:
  assumes "scan_loop p base fb st = Some st'"
  shows "map_of (all_deposits st) a = Some v \<longrightarrow> map_of (all_deposits st') a = Some v"
  using assms
proof (induction p base fb st st' rule: scan_loop.raw_induct[rotated 1, consumes 1, case_names step])
  case (step loop p base fb st st')
  show ?case
  proof
    assume a: "map_of (all_deposits st) a = Some v"
    show "map_of (all_deposits st') a = Some v"
    proof (cases "scan_iter p base fb st")
      case (Continue s)
      with scan_iter_keeps[OF a, of p base fb] have "map_of (all_deposits s) a = Some v" by simp
      moreover from step(2) Continue have "loop p base fb s = Some st'" by simp
      ultimately show ?thesis using step(1) by blast
    next
      case (Break s)
      with scan_iter_keeps[OF a, of p base fb] have "map_of (all_deposits s) a = Some v" by simp
      moreover from step(2) Break have "s = st'" by simp
      ultimately show ?thesis by simp
    qed
  qed
qed

lemma scan_loop_requests:
  assumes "scan_loop p base fb st = Some st'"
  shows "\<exists>rest. requests st' = requests st @ (from_block st, to_block st) # rest"
  using assms
proof (induction p base fb st st' rule: scan_loop.raw_induct[rotated 1, consumes 1, case_names step])
  case (step loop p base fb st st')
  show ?case
  proof (cases "scan_iter p base fb st")
    case (Continue s)
    with scan_iter_requests[of p base fb st]
    have r: "requests s = requests st @ [(from_block st, to_block st)]" by simp
    from step(2) Continue have "loop p base fb s = Some st'" by simp
    from step(1)[OF this] r show ?thesis by auto
  next
    case (Break s)
    with scan_iter_requests[of p base fb st]
    have r: "requests s = requests st @ [(from_block st, to_block st)]" by simp
    moreover from step(2) Break have "s = st'" by simp
    ultimately show ?thesis by simp
  qed
qed

text \<open>The loop can only be left after a request that succeeded.\<close>

lemma scan_loop_needs_success:
  assumes "scan_loop p base fb st = Some st'"
  shows "\<exists>i f t. p i f t \<noteq> None"
  using assms
proof (induction p base fb st st' rule: scan_loop.raw_induct[rotated 1, consumes 1, case_names step])
  case (step loop p base fb st st')
  show ?case
  proof (cases "p (length (requests st)) (from_block st) (to_block st)")
    case None
    with step(2) have "loop p base fb
        (st\<lparr>requests := requests st @ [(from_block st, to_block st)],
            cur_chunk_size := max (cur_chunk_size st div 2) 1,
            from_block := to_block st - max (cur_chunk_size st div 2) 1\<rparr>) = Some st'"
      by (simp add: scan_iter_None[where p=p and st=st])
    then show ?thesis by (rule step(1))
  next
    case (Some es)
    then show ?thesis by (metis option.distinct(1))
  qed
qed

text \<open>
  Termination under a provider that accepts every request of width at most \<open>W\<close>. The
  invariant: the local chunk size lies between 1 and the base, and the width of the pending
  request between 0 and the local chunk size. A failure then happens only at a chunk size of
  at least 2 and halves it; a success lowers \<^verbatim>\<open>to_block\<close>, which stays above the floor
  as long as the loop continues. So the pair of \<^verbatim>\<open>to_block\<close> minus the floor and the chunk
  size decreases lexicographically.
\<close>

lemma scan_loop_terminates:
  assumes W: "1 \<le> W" and base: "1 \<le> base"
    and prov: "\<And>i f t. (p i f t = None) = (W < t - f)"
    and inv: "1 \<le> cur_chunk_size st" "cur_chunk_size st \<le> base"
      "0 \<le> to_block st - from_block st" "to_block st - from_block st \<le> cur_chunk_size st"
  shows "\<exists>st'. scan_loop p base fb st = Some st' \<and> from_block st' \<le> fb \<and>
           (\<exists>rs f t. requests st' = rs @ [(f, t)] \<and> t - f \<le> W)"
proof -
  define R where "R = inv_image (less_than <*lex*> less_than)
      (\<lambda>st::scan_state. (nat (to_block st - fb), nat (cur_chunk_size st)))"
  have "wf R" unfolding R_def by (intro wf_inv_image wf_lex_prod wf_less_than)
  then show ?thesis using inv
  proof (induction st rule: wf_induct_rule)
    case (less st)
    show ?case
    proof (cases "p (length (requests st)) (from_block st) (to_block st)")
      case None
      let ?st' = "st\<lparr>requests := requests st @ [(from_block st, to_block st)],
                 cur_chunk_size := max (cur_chunk_size st div 2) 1,
                 from_block := to_block st - max (cur_chunk_size st div 2) 1\<rparr>"
      have "W < to_block st - from_block st"
        using None prov[of "length (requests st)" "from_block st" "to_block st"] by simp
      with W less.prems have cs: "2 \<le> cur_chunk_size st" by linarith
      then have m: "max (cur_chunk_size st div 2) 1 = cur_chunk_size st div 2" by simp
      have "(?st', st) \<in> R" using cs by (simp add: R_def m)
      moreover have "1 \<le> cur_chunk_size ?st'" "cur_chunk_size ?st' \<le> base"
        "0 \<le> to_block ?st' - from_block ?st'"
        "to_block ?st' - from_block ?st' \<le> cur_chunk_size ?st'"
        using cs less.prems by (simp_all add: m)
      ultimately have "\<exists>st'. scan_loop p base fb ?st' = Some st' \<and> from_block st' \<le> fb \<and>
           (\<exists>rs f t. requests st' = rs @ [(f, t)] \<and> t - f \<le> W)"
        by (rule less.IH)
      then show ?thesis
        by (subst scan_loop.simps) (simp add: scan_iter_None[where p=p and st=st, OF None])
    next
      case (Some es)
      let ?st' = "st\<lparr>requests := requests st @ [(from_block st, to_block st)],
                 all_deposits := add_entries (all_deposits st) es,
                 to_block := from_block st - 1,
                 from_block := max fb (from_block st - cur_chunk_size st),
                 cur_chunk_size := base\<rparr>"
      have w: "to_block st - from_block st \<le> W"
        using Some prov[of "length (requests st)" "from_block st" "to_block st"] by simp
      show ?thesis
      proof (cases "from_block st - cur_chunk_size st \<le> fb")
        case True
        then show ?thesis using w
          by (subst scan_loop.simps) (simp add: scan_iter_Some[where p=p and st=st, OF Some])
      next
        case False
        have "(?st', st) \<in> R" using False less.prems by (simp add: R_def)
        moreover have "1 \<le> cur_chunk_size ?st'" "cur_chunk_size ?st' \<le> base"
          "0 \<le> to_block ?st' - from_block ?st'"
          "to_block ?st' - from_block ?st' \<le> cur_chunk_size ?st'"
          using False less.prems base by simp_all
        ultimately have "\<exists>st'. scan_loop p base fb ?st' = Some st' \<and> from_block st' \<le> fb \<and>
           (\<exists>rs f t. requests st' = rs @ [(f, t)] \<and> t - f \<le> W)"
          by (rule less.IH)
        then show ?thesis using False
          by (subst scan_loop.simps) (simp add: scan_iter_Some[where p=p and st=st, OF Some])
      qed
    qed
  qed
qed

text \<open>
  With a negative chunk size every request has a negative width; where such requests are
  accepted, each advance raises \<^verbatim>\<open>from_block\<close>, away from the floor, and the loop is
  never left.
\<close>

lemma scan_loop_negative_chunk:
  assumes "scan_loop p base fb st = Some st'"
  shows "\<not> (base < 0 \<and> cur_chunk_size st < 0 \<and> fb < from_block st \<and>
            to_block st < from_block st \<and> (\<forall>i f t. t < f \<longrightarrow> p i f t \<noteq> None))"
  using assms
proof (induction p base fb st st' rule: scan_loop.raw_induct[rotated 1, consumes 1, case_names step])
  case (step loop p base fb st st')
  show ?case
  proof
    assume a: "base < 0 \<and> cur_chunk_size st < 0 \<and> fb < from_block st \<and>
            to_block st < from_block st \<and> (\<forall>i f t. t < f \<longrightarrow> p i f t \<noteq> None)"
    then obtain es where es: "p (length (requests st)) (from_block st) (to_block st) = Some es"
      by fastforce
    let ?st' = "st\<lparr>requests := requests st @ [(from_block st, to_block st)],
                 all_deposits := add_entries (all_deposits st) es,
                 to_block := from_block st - 1,
                 from_block := max fb (from_block st - cur_chunk_size st),
                 cur_chunk_size := base\<rparr>"
    from a have c: "\<not> from_block st - cur_chunk_size st \<le> fb" by linarith
    with step(2) have "loop p base fb ?st' = Some st'"
      by (simp add: scan_iter_Some[where p=p and st=st, OF es])
    from step(1)[OF this] a c show False by simp
  qed
qed

section \<open>The scan of a window of two chunks\<close>

text \<open>
  C1. A configuration with \<^verbatim>\<open>n_blocks = 10000\<close>, \<^verbatim>\<open>chunk_size = 5000\<close> and
  \<^verbatim>\<open>end_block = 1000000\<close> is scanned against a provider that never fails and holds one
  deposit in block 999000 and one in block 992000, both inside the window that starts at the
  floor 990000. The loop issues the single request for the blocks 995000 to 1000000: the
  advance of lines 183 and 184 clamps \<^verbatim>\<open>from_block\<close> to the floor, and the test of line
  187 then leaves the loop before the clamped chunk, blocks 990000 to 994999, is requested.
  The deposit of block 992000 is not in the record.
\<close>

theorem two_chunk_window_single_request:
  "scan (example_ci (Some 10000) (Some 5000) 1000000) 0
        (log_provider [(999000, (''0xA'', 7)), (992000, (''0xB'', 3))])
   = Some (Inr \<lparr>to_block = 994999, from_block = 990000, cur_chunk_size = 5000,
                all_deposits = [(''0xA'', 7)], requests = [(995000, 1000000)]\<rparr>)"
  by code_simp

section \<open>The advance after a successful request\<close>

text \<open>
  C2, as stated, at two concrete passes. With base width 8 and floor 70, a request from 92
  to 100 at the base width succeeds: the next bounds are 84 and 91, while
  \<open>max floor (to - base)\<close> for the new \<^verbatim>\<open>to_block\<close> is 83. Under the provider that fails
  widths above 2, two halvings lead to the request from 98 to 100 at chunk size 2, which
  succeeds: the next bounds are 96 and 97, while \<open>max floor (to - base)\<close> is 89, so the
  halved width does carry over into the next chunk.
\<close>

theorem advance_uses_reset_width_counterexample:
  "scan_iter (log_provider []) 8 70
      \<lparr>to_block = 100, from_block = 92, cur_chunk_size = 8, all_deposits = [], requests = []\<rparr>
     = Continue \<lparr>to_block = 91, from_block = 84, cur_chunk_size = 8, all_deposits = [],
                 requests = [(92, 100)]\<rparr>
   \<and> (84::int) \<noteq> max 70 (91 - 8)
   \<and> scan_iter (threshold_provider 2) 8 70
      \<lparr>to_block = 100, from_block = 98, cur_chunk_size = 2, all_deposits = [],
       requests = [(92, 100), (96, 100)]\<rparr>
     = Continue \<lparr>to_block = 97, from_block = 96, cur_chunk_size = 8, all_deposits = [],
                 requests = [(92, 100), (96, 100), (98, 100)]\<rparr>
   \<and> (96::int) \<noteq> max 70 (97 - 8)"
  by (simp add: scan_iter_def log_provider_def threshold_provider_def)

text \<open>
  C2, amended. After a successful request, \<^verbatim>\<open>to_block\<close> becomes the old
  \<^verbatim>\<open>from_block\<close> minus 1, the next \<^verbatim>\<open>from_block\<close> is the larger of the floor and the
  old \<^verbatim>\<open>from_block\<close> minus the chunk size in effect at that request (halved or not), and
  the chunk size is the configured base afterwards.
\<close>

theorem advance_after_success:
  "p (length (requests st)) (from_block st) (to_block st) = Some es \<Longrightarrow>
   to_block (ctl_state (scan_iter p base fb st)) = from_block st - 1 \<and>
   from_block (ctl_state (scan_iter p base fb st)) = max fb (from_block st - cur_chunk_size st) \<and>
   cur_chunk_size (ctl_state (scan_iter p base fb st)) = base"
  by (simp add: scan_iter_Some)

theorem advance_after_success_witness:
  "threshold_provider 2 2 98 100 = Some [] \<and>
   to_block (ctl_state (scan_iter (threshold_provider 2) 8 70
      \<lparr>to_block = 100, from_block = 98, cur_chunk_size = 2, all_deposits = [],
       requests = [(92, 100), (96, 100)]\<rparr>)) = 97 \<and>
   from_block (ctl_state (scan_iter (threshold_provider 2) 8 70
      \<lparr>to_block = 100, from_block = 98, cur_chunk_size = 2, all_deposits = [],
       requests = [(92, 100), (96, 100)]\<rparr>)) = 96 \<and>
   cur_chunk_size (ctl_state (scan_iter (threshold_provider 2) 8 70
      \<lparr>to_block = 100, from_block = 98, cur_chunk_size = 2, all_deposits = [],
       requests = [(92, 100), (96, 100)]\<rparr>)) = 8"
  using advance_after_success
    [of "threshold_provider 2"
        "\<lparr>to_block = 100, from_block = 98, cur_chunk_size = 2, all_deposits = [],
          requests = [(92, 100), (96, 100)]\<rparr>" "[]" 8 70]
  by (simp add: threshold_provider_def)

section \<open>Termination under a width threshold\<close>

text \<open>
  C3, as stated, at concrete inputs. First: window 30, chunk size 8, end block 100, and the
  provider that fails exactly the widths above 2. The loop returns, but the requests do not
  settle at widths of at most 2: after the accepted requests from 98 to 100 and from 96 to
  97 the chunk size is back at 8, the request from 88 to 95 of width 7 fails, and so on
  after every advance. The scan also ends with \<^verbatim>\<open>to_block = 75\<close>: the blocks 71 to 75 of
  the window are in no request. Second: with the chunk size \<open>- 5\<close>, which passes the
  assertion of line 145 against the default window, the same provider accepts every request
  and the loop never returns.
\<close>

theorem threshold_scan_counterexample:
  "scan (example_ci (Some 30) (Some 8) 100) 0 (threshold_provider 2)
   = Some (Inr \<lparr>to_block = 75, from_block = 70, cur_chunk_size = 8, all_deposits = [],
        requests =
          [(92, 100), (96, 100), (98, 100), (96, 97), (88, 95), (91, 95),
           (93, 95), (91, 92), (83, 90), (86, 90), (88, 90), (86, 87),
           (78, 85), (81, 85), (83, 85), (81, 82), (73, 80), (76, 80),
           (78, 80), (76, 77)]\<rparr>)
   \<and> threshold_provider 2 2 98 100 = Some []
   \<and> threshold_provider 2 4 88 95 = None
   \<and> scan (example_ci None (Some (- 5)) 100) 0 (threshold_provider 2) = None"
proof -
  have a: "scan (example_ci (Some 30) (Some 8) 100) 0 (threshold_provider 2)
   = Some (Inr \<lparr>to_block = 75, from_block = 70, cur_chunk_size = 8, all_deposits = [],
        requests =
          [(92, 100), (96, 100), (98, 100), (96, 97), (88, 95), (91, 95),
           (93, 95), (91, 92), (83, 90), (86, 90), (88, 90), (86, 87),
           (78, 85), (81, 85), (83, 85), (81, 82), (73, 80), (76, 80),
           (78, 80), (76, 77)]\<rparr>)"
    by code_simp
  have b: "threshold_provider 2 2 98 100 = Some []"
    by (simp add: threshold_provider_def)
  have c: "threshold_provider 2 4 88 95 = None"
    by (simp add: threshold_provider_def)
  have d: "scan (example_ci None (Some (- 5)) 100) 0 (threshold_provider 2) = None"
  proof (cases "scan_loop (threshold_provider 2) (- 5) (100 - 4999)
       \<lparr>to_block = 100, from_block = 105, cur_chunk_size = - 5, all_deposits = [],
        requests = []\<rparr>")
    case None
    then show ?thesis
      by (simp add: scan_def example_ci_def chunk_size_def n_blocks_def get_or_def N_BLOCKS_def
          CHUNK_SIZE_def init_state_def first_block_of_def end_block_def)
  next
    case (Some st')
    from scan_loop_negative_chunk[OF this] show ?thesis
      by (simp add: threshold_provider_def)
  qed
  show ?thesis by (rule conjI [OF a conjI [OF b conjI [OF c d]]])
qed

text \<open>
  C3, amended. For every configuration with a positive chunk size that passes the assertion
  of line 145, and every provider that fails exactly the requests whose width
  \<open>toBlock - fromBlock\<close> exceeds \<open>W\<close>, with \<open>W\<close> at least 1, the scan returns after
  finitely many requests, without an exception, with \<^verbatim>\<open>from_block\<close> at or below the floor;
  its last request had a width of at most \<open>W\<close>.
\<close>

theorem threshold_scan_terminates:
  assumes "1 \<le> W" and "1 \<le> chunk_size ci" and "chunk_size ci \<le> n_blocks ci"
    and "\<forall>i f t. (p i f t = None) = (W < t - f)"
  shows "\<exists>st. scan ci bn p = Some (Inr st) \<and> from_block st \<le> first_block_of ci bn \<and>
           (\<exists>rs f t. requests st = rs @ [(f, t)] \<and> t - f \<le> W)"
proof -
  have "\<exists>st'. scan_loop p (chunk_size ci) (first_block_of ci bn) (init_state ci bn) = Some st' \<and>
          from_block st' \<le> first_block_of ci bn \<and>
          (\<exists>rs f t. requests st' = rs @ [(f, t)] \<and> t - f \<le> W)"
    using assms by (intro scan_loop_terminates) (simp_all add: init_state_def)
  then show ?thesis using assms(3) by (auto simp: scan_def)
qed

theorem threshold_scan_terminates_witness:
  "(1::int) \<le> 2 \<and> 1 \<le> chunk_size (example_ci (Some 30) (Some 8) 100) \<and>
   chunk_size (example_ci (Some 30) (Some 8) 100) \<le> n_blocks (example_ci (Some 30) (Some 8) 100) \<and>
   (\<forall>i f t. (threshold_provider 2 i f t = None) = (2 < t - f)) \<and>
   (\<exists>st. scan (example_ci (Some 30) (Some 8) 100) 0 (threshold_provider 2) = Some (Inr st) \<and>
      from_block st \<le> first_block_of (example_ci (Some 30) (Some 8) 100) 0 \<and>
      (\<exists>rs f t. requests st = rs @ [(f, t)] \<and> t - f \<le> 2))"
proof -
  have a: "(1::int) \<le> 2" by simp
  have b: "1 \<le> chunk_size (example_ci (Some 30) (Some 8) 100)"
    by (simp add: chunk_size_def get_or_def example_ci_def)
  have c: "chunk_size (example_ci (Some 30) (Some 8) 100)
             \<le> n_blocks (example_ci (Some 30) (Some 8) 100)"
    by (simp add: chunk_size_def n_blocks_def get_or_def example_ci_def)
  have d: "\<forall>i f t. (threshold_provider 2 i f t = None) = (2 < t - f)"
    by (simp add: threshold_provider_def)
  from threshold_scan_terminates [OF a b c d, of 0] a b c d show ?thesis by blast
qed

section \<open>Provider errors\<close>

text \<open>
  C4, as stated, at a concrete input: window 1, chunk size 1, end block 100, and a provider
  whose first request fails and whose second returns one deposit. The request from 99 to
  100 fails at chunk size 1; the scan raises nothing, issues the same request again and
  returns the record.
\<close>

theorem width_one_failure_counterexample:
  "scan (example_ci (Some 1) (Some 1) 100) 0 (flaky_provider 1 [(''0xA'', 7)])
   = Some (Inr \<lparr>to_block = 98, from_block = 99, cur_chunk_size = 1,
                all_deposits = [(''0xA'', 7)], requests = [(99, 100), (99, 100)]\<rparr>)"
  by code_simp

text \<open>
  C4, amended. A provider error during the log scan is never surfaced to the caller, at any
  chunk width: once the assertion of line 145 has passed, the scan returns no exception. A
  failed request leaves \<^verbatim>\<open>to_block\<close> and the record as they are, halves the chunk size
  with 1 as minimum and continues; at chunk size 1 that is the request from
  \<open>to_block - 1\<close> to \<open>to_block\<close> again. Nothing bounds the retries: under a provider
  that fails every request the scan never returns.
\<close>

theorem provider_error_never_surfaced:
  "(chunk_size ci \<le> n_blocks ci \<longrightarrow> scan ci bn p \<noteq> Some (Inl e)) \<and>
   (p (length (requests st)) (from_block st) (to_block st) = None \<longrightarrow>
      scan_iter p base fb st =
        Continue (st\<lparr>requests := requests st @ [(from_block st, to_block st)],
                    cur_chunk_size := max (cur_chunk_size st div 2) 1,
                    from_block := to_block st - max (cur_chunk_size st div 2) 1\<rparr>)) \<and>
   (p (length (requests st)) (from_block st) (to_block st) = None \<and> cur_chunk_size st = 1 \<longrightarrow>
      scan_iter p base fb st =
        Continue (st\<lparr>requests := requests st @ [(from_block st, to_block st)],
                    from_block := to_block st - 1\<rparr>)) \<and>
   (chunk_size ci \<le> n_blocks ci \<and> (\<forall>i f t. q i f t = None) \<longrightarrow> scan ci bn q = None)"
proof (intro conjI impI)
  assume "chunk_size ci \<le> n_blocks ci"
  then show "scan ci bn p \<noteq> Some (Inl e)"
    by (auto simp: scan_def)
next
  assume "p (length (requests st)) (from_block st) (to_block st) = None"
  then show "scan_iter p base fb st =
        Continue (st\<lparr>requests := requests st @ [(from_block st, to_block st)],
                    cur_chunk_size := max (cur_chunk_size st div 2) 1,
                    from_block := to_block st - max (cur_chunk_size st div 2) 1\<rparr>)"
    by (rule scan_iter_None)
next
  assume "p (length (requests st)) (from_block st) (to_block st) = None \<and> cur_chunk_size st = 1"
  then show "scan_iter p base fb st =
        Continue (st\<lparr>requests := requests st @ [(from_block st, to_block st)],
                    from_block := to_block st - 1\<rparr>)"
    by (simp add: scan_iter_None)
next
  assume a: "chunk_size ci \<le> n_blocks ci \<and> (\<forall>i f t. q i f t = None)"
  have "scan_loop q (chunk_size ci) (first_block_of ci bn) (init_state ci bn) = None"
  proof (cases "scan_loop q (chunk_size ci) (first_block_of ci bn) (init_state ci bn)")
    case None
    then show ?thesis .
  next
    case (Some st')
    from scan_loop_needs_success[OF this] a show ?thesis by simp
  qed
  with a show "scan ci bn q = None" by (simp add: scan_def)
qed

theorem provider_error_never_surfaced_witness:
  "chunk_size (example_ci (Some 1) (Some 1) 100) \<le> n_blocks (example_ci (Some 1) (Some 1) 100) \<and>
   flaky_provider 1 [(''0xA'', 7)] 0 99 100 = None \<and>
   cur_chunk_size (init_state (example_ci (Some 1) (Some 1) 100) 0) = 1 \<and>
   scan (example_ci (Some 1) (Some 1) 100) 0 (flaky_provider 1 [(''0xA'', 7)])
     \<noteq> Some (Inl AssertionError) \<and>
   scan_iter (flaky_provider 1 [(''0xA'', 7)]) 1 99 (init_state (example_ci (Some 1) (Some 1) 100) 0)
     = Continue \<lparr>to_block = 100, from_block = 99, cur_chunk_size = 1, all_deposits = [],
                 requests = [(99, 100)]\<rparr> \<and>
   scan (example_ci (Some 1) (Some 1) 100) 0 (\<lambda>i f t. None) = None"
  using provider_error_never_surfaced
    [of "example_ci (Some 1) (Some 1) 100" 0 "flaky_provider 1 [(''0xA'', 7)]" AssertionError
        "init_state (example_ci (Some 1) (Some 1) 100) 0" 1 99
        "\<lambda>i f t. None"]
  by (simp add: chunk_size_def n_blocks_def get_or_def example_ci_def flaky_provider_def
      init_state_def end_block_def)

section \<open>First write wins\<close>

text \<open>
  C5. Once an address has an amount in the record, that amount stays: through one pass of
  the loop body, whether the request fails and is retried or succeeds with any entries, and
  in the record the loop returns. And when an address is not in the record yet, occurs in
  the entries of one chunk, first with amount \<open>v\<close>, then \<open>v\<close> is its amount after any
  later chunk as well.
\<close>

theorem first_write_wins:
  "(map_of (all_deposits st) a = Some v \<longrightarrow>
      map_of (all_deposits (ctl_state (scan_iter p base fb st))) a = Some v \<and>
      (\<forall>st'. scan_loop p base fb st = Some st' \<longrightarrow> map_of (all_deposits st') a = Some v)) \<and>
   (map_of d a = None \<and> map_of es1 a = Some v \<longrightarrow>
      map_of (add_entries (add_entries d es1) es2) a = Some v)"
proof (intro conjI impI allI)
  assume "map_of (all_deposits st) a = Some v"
  then show "map_of (all_deposits (ctl_state (scan_iter p base fb st))) a = Some v"
    by (rule scan_iter_keeps)
next
  fix st'
  assume "map_of (all_deposits st) a = Some v" and "scan_loop p base fb st = Some st'"
  with scan_loop_keeps show "map_of (all_deposits st') a = Some v" by blast
next
  assume "map_of d a = None \<and> map_of es1 a = Some v"
  then have "map_of (add_entries d es1) a = Some v"
    by (simp add: map_of_add_entries map_add_def)
  then show "map_of (add_entries (add_entries d es1) es2) a = Some v"
    by (rule add_entries_keeps)
qed

theorem first_write_wins_witness:
  "map_of (all_deposits \<lparr>to_block = 91, from_block = 84, cur_chunk_size = 8,
       all_deposits = [(''0xA'', 7)], requests = [(92, 100)]\<rparr>) ''0xA'' = Some 7 \<and>
   scan_loop (log_provider example_events) 8 80
     \<lparr>to_block = 91, from_block = 84, cur_chunk_size = 8,
       all_deposits = [(''0xA'', 7)], requests = [(92, 100)]\<rparr>
     = Some \<lparr>to_block = 83, from_block = 80, cur_chunk_size = 8,
         all_deposits = [(''0xA'', 7), (''0xB'', 1), (''0xC'', 4)],
         requests = [(92, 100), (84, 91)]\<rparr> \<and>
   map_of (all_deposits \<lparr>to_block = 83, from_block = 80, cur_chunk_size = 8,
         all_deposits = [(''0xA'', 7), (''0xB'', 1), (''0xC'', 4)],
         requests = [(92, 100), (84, 91)]\<rparr>) ''0xA'' = Some 7 \<and>
   map_of [] ''0xA'' = (None :: int option) \<and>
   map_of [(''0xA'', 7 :: int)] ''0xA'' = Some 7 \<and>
   map_of (add_entries (add_entries [] [(''0xA'', 7)]) [(''0xA'', 9), (''0xB'', 1), (''0xC'', 4)])
     ''0xA'' = Some 7"
proof -
  have l: "scan_loop (log_provider example_events) 8 80
     \<lparr>to_block = 91, from_block = 84, cur_chunk_size = 8,
       all_deposits = [(''0xA'', 7)], requests = [(92, 100)]\<rparr>
     = Some \<lparr>to_block = 83, from_block = 80, cur_chunk_size = 8,
         all_deposits = [(''0xA'', 7), (''0xB'', 1), (''0xC'', 4)],
         requests = [(92, 100), (84, 91)]\<rparr>"
    by code_simp
  show ?thesis
    using first_write_wins
      [of "\<lparr>to_block = 91, from_block = 84, cur_chunk_size = 8,
            all_deposits = [(''0xA'', 7)], requests = [(92, 100)]\<rparr>"
          "''0xA''" 7 "log_provider example_events" 8 80
          "[]" "[(''0xA'', 7)]" "[(''0xA'', 9), (''0xB'', 1), (''0xC'', 4)]"] l
    by simp
qed

section \<open>A window size of zero\<close>

text \<open>
  C6, as stated, at a concrete input: \<^verbatim>\<open>n_blocks = 0\<close>, no \<^verbatim>\<open>chunk_size\<close>, end block
  1000000, and a provider holding one deposit in block 999000. The window is the default of
  4999 blocks, one request is issued and the record holds the deposit.
\<close>

theorem zero_window_counterexample:
  "n_blocks (example_ci (Some 0) None 1000000) = 4999 \<and>
   scan (example_ci (Some 0) None 1000000) 0 (log_provider [(999000, (''0xA'', 7))])
   = Some (Inr \<lparr>to_block = 995000, from_block = 995001, cur_chunk_size = 4999,
                all_deposits = [(''0xA'', 7)], requests = [(995001, 1000000)]\<rparr>)"
  by code_simp

text \<open>
  C6, amended. A configured window size of zero is replaced by the default of 4999 blocks,
  as a missing one is. In every configuration, a scan that returns a record has issued at
  least one request, the first one from \<open>end_block - chunk_size\<close> to \<open>end_block\<close>.
\<close>

theorem zero_window_is_default:
  "n_blocks (ci\<lparr>ci_n_blocks := Some 0\<rparr>) = 4999 \<and>
   n_blocks (ci\<lparr>ci_n_blocks := Some 0\<rparr>) = n_blocks (ci\<lparr>ci_n_blocks := None\<rparr>) \<and>
   (scan ci bn p = Some (Inr st) \<longrightarrow>
      (\<exists>rest. requests st = (end_block ci bn - chunk_size ci, end_block ci bn) # rest))"
proof (intro conjI impI)
  show "n_blocks (ci\<lparr>ci_n_blocks := Some 0\<rparr>) = 4999"
    by (simp add: n_blocks_def get_or_def N_BLOCKS_def CHUNK_SIZE_def)
  show "n_blocks (ci\<lparr>ci_n_blocks := Some 0\<rparr>) = n_blocks (ci\<lparr>ci_n_blocks := None\<rparr>)"
    by (simp add: n_blocks_def get_or_def)
next
  assume "scan ci bn p = Some (Inr st)"
  then have "scan_loop p (chunk_size ci) (first_block_of ci bn) (init_state ci bn) = Some st"
    by (auto simp: scan_def split: if_splits)
  from scan_loop_requests[OF this]
  show "\<exists>rest. requests st = (end_block ci bn - chunk_size ci, end_block ci bn) # rest"
    by (simp add: init_state_def)
qed

theorem zero_window_is_default_witness:
  "scan (example_ci (Some 0) None 1000000) 0 (log_provider [(999000, (''0xA'', 7))])
     = Some (Inr \<lparr>to_block = 995000, from_block = 995001, cur_chunk_size = 4999,
                  all_deposits = [(''0xA'', 7)], requests = [(995001, 1000000)]\<rparr>) \<and>
   n_blocks (example_ci (Some 0) None 1000000\<lparr>ci_n_blocks := Some 0\<rparr>) = 4999 \<and>
   (\<exists>rest. requests \<lparr>to_block = 995000, from_block = 995001, cur_chunk_size = 4999,
                  all_deposits = [(''0xA'', 7)], requests = [(995001, 1000000)]\<rparr>
      = (end_block (example_ci (Some 0) None 1000000) 0
           - chunk_size (example_ci (Some 0) None 1000000),
         end_block (example_ci (Some 0) None 1000000) 0) # rest)"
proof -
  have s: "scan (example_ci (Some 0) None 1000000) 0 (log_provider [(999000, (''0xA'', 7))])
     = Some (Inr \<lparr>to_block = 995000, from_block = 995001, cur_chunk_size = 4999,
                  all_deposits = [(''0xA'', 7)], requests = [(995001, 1000000)]\<rparr>)"
    by code_simp
  show ?thesis
    using zero_window_is_default
      [of "example_ci (Some 0) None 1000000" 0 "log_provider [(999000, (''0xA'', 7))]"
          "\<lparr>to_block = 995000, from_block = 995001, cur_chunk_size = 4999,
            all_deposits = [(''0xA'', 7)], requests = [(995001, 1000000)]\<rparr>"] s
    by simp
qed

section \<open>Facts about \<open>millify\<close>\<close>

text \<open>\<^verbatim>\<open>math.log10(x) / 3\<close> is the logarithm to base 1000.\<close>

lemma log10_div3: "log 10 x / 3 = log 1000 x"
proof -
  have "log ((10::real) ^ 3) x = log 10 x / real 3" by (rule log_base_pow) simp
  then show ?thesis by simp
qed


lemma millidx_range:
  assumes "1000 ^ k \<le> \<bar>n\<bar>" "\<bar>n\<bar> < 1000 ^ Suc k" "k \<le> 4"
  shows "millidx n = k"
proof -
  from assms(1) have pos: "0 < \<bar>n\<bar>"
    by (smt (verit) zero_less_power)
  then have n0: "n \<noteq> 0" by auto
  have "(1000::real) powr real_of_int (int k) \<le> \<bar>n\<bar>"
    using assms(1) by (simp add: powr_realpow)
  moreover have "\<bar>n\<bar> < (1000::real) powr real_of_int (int k + 1)"
  proof -
    have "(1000::real) powr real_of_int (int k + 1) = 1000 powr real (Suc k)"
      by (simp add: add.commute)
    also have "\<dots> = 1000 ^ Suc k" by (subst powr_realpow) simp_all
    finally show ?thesis using assms(2) by simp
  qed
  ultimately have "\<lfloor>log 1000 \<bar>n\<bar>\<rfloor> = int k"
    using floor_log_eq_powr_iff[of "\<bar>n\<bar>" 1000 "int k"] pos by simp
  then show ?thesis using n0 assms(3) by (simp add: millidx_def log10_div3 millnames_def)
qed




lemma round_half_even_tie_down: "round_half_even (5 / 2) = 2"
proof -
  have "\<lfloor>5 / 2 :: real\<rfloor> = 2" by linarith
  then show ?thesis by (simp add: round_half_even_def Let_def)
qed

lemma round_half_even_below: "round_half_even (5 / 4) = 1"
proof -
  have "\<lfloor>5 / 4 :: real\<rfloor> = 1" by linarith
  then show ?thesis by (simp add: round_half_even_def Let_def)
qed




lemma millify_1250: "millify 1250 = ''1 K''"
  using round_half_even_below millidx_range[of 1 1250]
  by (simp add: millify_def format_0f_def millnames_def digit_char_def)

lemma millify_2500: "millify 2500 = ''2 K''"
  using round_half_even_tie_down millidx_range[of 1 2500]
  by (simp add: millify_def format_0f_def millnames_def digit_char_def)



section \<open>Facts about the ranking\<close>

text \<open>The rows of the loop are those it started with and one for each address with a nonzero amount.\<close>

lemma users_info_loop_addresses:
  "users_info_loop ch usd lp addrs acc = Inr rows \<Longrightarrow>
   fst ` set rows = fst ` set acc \<union> {a \<in> set addrs. fst (userInfo ch a) \<noteq> 0}"
proof (induction addrs arbitrary: acc)
  case Nil
  then show ?case by simp
next
  case (Cons addr addrs)
  obtain amount reward_debt where ui: "userInfo ch addr = (amount, reward_debt)"
    by (cases "userInfo ch addr")
  show ?case
  proof (cases "amount = 0")
    case True
    with Cons.prems ui have "users_info_loop ch usd lp addrs acc = Inr rows" by simp
    from Cons.IH[OF this] True ui show ?thesis by auto
  next
    case False
    with Cons.prems ui have lp: "lp \<noteq> 0" by (auto split: if_splits)
    with Cons.prems ui False
    have "users_info_loop ch usd lp addrs
            (acc @ [(addr, 100 * of_int amount / of_int lp,
                     millify (usd * of_int amount / of_int lp), is_contract ch addr)]) = Inr rows"
      by simp
    from Cons.IH[OF this] False ui show ?thesis by auto
  qed
qed

lemma set_sorted_reverse: "set (sorted_reverse rows) = set rows"
  by (simp add: sorted_reverse_def)

text \<open>The example chain, step by step.\<close>

lemma example_scan:
  "scan (example_ci (Some 20) (Some 8) 100) (blockNumber example_chain)
        (get_all_entries example_chain)
   = Some (Inr \<lparr>to_block = 83, from_block = 80, cur_chunk_size = 8,
         all_deposits = [(''0xA'', 7), (''0xB'', 1), (''0xC'', 4)],
         requests = [(92, 100), (84, 91)]\<rparr>)"
  by code_simp

lemma example_balance:
  "get_master_chef_balance (example_ci (Some 20) (Some 8) 100) example_chain = Inr (5000, 200)"
  by (simp add: get_master_chef_balance_def get_lp_ref_reserve_def py_getitem_def
      example_ci_def example_lp_def example_chain_def)

lemma example_users_info:
  "users_info_loop example_chain 5000 200 [''0xA'', ''0xB'', ''0xC''] []
   = Inr [(''0xB'', 25, ''1 K'', False), (''0xC'', 50, ''2 K'', True)]"
  by (simp add: example_chain_def millify_1250 millify_2500)

lemma example_report:
  "process_contract (example_ci (Some 20) (Some 8) 100) example_chain
   = Some (Inr (Written [(''0xC'', 50, ''2 K'', True), (''0xB'', 25, ''1 K'', False)]))"
proof -
  have "sorted_reverse [(''0xB'', 25, ''1 K'', False), (''0xC'', 50, ''2 K'', True)]
        = [(''0xC'', 50, ''2 K'', True), (''0xB'', 25, ''1 K'', False)]"
    by (simp add: sorted_reverse_def)
  moreover have "ci_enabled (example_ci (Some 20) (Some 8) 100)"
    by (simp add: example_ci_def)
  ultimately show ?thesis
    by (simp add: process_contract_def example_scan example_balance example_users_info
        del: users_info_loop.simps)
qed

section \<open>Zero-balance filtering\<close>

text \<open>
  C7. When a contract has been processed and its rows written, no row belongs to an
  address whose current staked amount, the first component of \<^verbatim>\<open>userInfo\<close>, is zero.
\<close>

theorem zero_balance_filtered:
  assumes "process_contract ci ch = Some (Inr (Written rows))"
    and "fst (userInfo ch a) = 0"
  shows "a \<notin> fst ` set rows"
proof -
  from assms(1) have en: "ci_enabled ci"
    by (cases "ci_enabled ci") (simp_all add: process_contract_def)
  from assms(1) en obtain st where
    st: "scan ci (blockNumber ch) (get_all_entries ch) = Some (Inr st)"
    by (cases "scan ci (blockNumber ch) (get_all_entries ch)")
       (auto simp: process_contract_def split: sum.splits)
  from assms(1) en st obtain usd lp where g: "get_master_chef_balance ci ch = Inr (usd, lp)"
    by (cases "get_master_chef_balance ci ch") (auto simp: process_contract_def)
  from assms(1) en st g obtain users_info where
    u: "users_info_loop ch usd lp (map fst (all_deposits st)) [] = Inr users_info"
    by (cases "users_info_loop ch usd lp (map fst (all_deposits st)) []")
       (auto simp: process_contract_def)
  from assms(1) en st g u have r: "rows = sorted_reverse users_info"
    by (simp add: process_contract_def)
  from users_info_loop_addresses[OF u] assms(2) have "a \<notin> fst ` set users_info" by auto
  then show ?thesis by (simp add: r set_sorted_reverse)
qed

theorem zero_balance_filtered_witness:
  "process_contract (example_ci (Some 20) (Some 8) 100) example_chain
     = Some (Inr (Written [(''0xC'', 50, ''2 K'', True), (''0xB'', 25, ''1 K'', False)])) \<and>
   fst (userInfo example_chain ''0xA'') = 0 \<and>
   ''0xA'' \<notin> fst ` set [(''0xC'', 50 :: real, ''2 K'', True), (''0xB'', 25, ''1 K'', False)]"
proof -
  have z: "fst (userInfo example_chain ''0xA'') = 0"
    by (simp add: example_chain_def)
  from zero_balance_filtered [OF example_report z] example_report z show ?thesis by blast
qed

section \<open>The values of \<open>millify\<close>\<close>



section \<open>The reference slot\<close>

text \<open>
  C9. With \<^verbatim>\<open>ref_token = -1\<close> and the three values \<^verbatim>\<open>getReserves()\<close> returns (two
  reserves and the timestamp of the last block), the assertion \<^verbatim>\<open>ref_token < 2\<close> passes
  and the function returns the last of them, the timestamp, where an index other than 0 or 1
  was to be rejected.
\<close>

theorem negative_ref_token_accepted:
  "get_lp_ref_reserve
     (example_ci None None 1000000\<lparr>ci_lp := example_lp\<lparr>ref_token := - 1\<rparr>\<rparr>)
     [5000, 7000, 1700000000]
   = Inr 1700000000"
  by (simp add: get_lp_ref_reserve_def py_getitem_def example_ci_def example_lp_def)

section \<open>The minimum amount\<close>

text \<open>
  C10. Changing the \<^verbatim>\<open>min_amount\<close> key of a contract's configuration changes neither the
  scan, nor the enrichment, nor the rows written for it.
\<close>

theorem min_amount_unused:
  "scan (ci\<lparr>ci_min_amount := m\<rparr>) bn p = scan ci bn p \<and>
   get_master_chef_balance (ci\<lparr>ci_min_amount := m\<rparr>) ch = get_master_chef_balance ci ch \<and>
   process_contract (ci\<lparr>ci_min_amount := m\<rparr>) ch = process_contract ci ch"
proof -
  have s: "scan (ci\<lparr>ci_min_amount := m\<rparr>) bn p = scan ci bn p" for bn p
    by (simp add: scan_def n_blocks_def chunk_size_def init_state_def first_block_of_def
        end_block_def)
  have g: "get_master_chef_balance (ci\<lparr>ci_min_amount := m\<rparr>) ch = get_master_chef_balance ci ch"
    by (auto simp: get_master_chef_balance_def get_lp_ref_reserve_def Let_def split: sum.splits)
  have "process_contract (ci\<lparr>ci_min_amount := m\<rparr>) ch = process_contract ci ch"
    unfolding process_contract_def s g by simp
  with s g show ?thesis by simp
qed

end
